theory Spec2Isabelle
  imports Main
begin

section \<open>Values, errors and the string primitives of \<open>APIKernal.parse_response\<close>\<close>

text \<open>
  The data handed to \<open>parse_response\<close> is what \<open>json.loads\<close> produces (or the raw
  response text): \<open>None\<close>, \<open>bool\<close>, \<open>int\<close>, \<open>float\<close>, \<open>str\<close>, \<open>list\<close> and \<open>dict\<close>
  with \<open>str\<close> keys. A \<open>dict\<close> is an association list read with \<open>map_of\<close>; a \<open>float\<close>
  carries its sign, exponent and fraction bits, which the resolver never inspects.
  Strings are lists of code points below 256. Tuples and other Python objects are not
  part of the model.
\<close>

datatype pyval =
    PNone
  | PBool bool
  | PInt int
  | PFloat bool nat nat
  | PStr string
  | PList "pyval list"
  | PDict "(string \<times> pyval) list"

text \<open>The exceptions the built-in operations of the resolver can raise.\<close>

datatype error = ValueError | TypeError | IndexError | KeyError

text \<open>
  \<open>str.isspace\<close> on the code points below 256: the characters \<open>str.strip()\<close> removes.
\<close>

definition isspace :: "char \<Rightarrow> bool" where
  "isspace c \<longleftrightarrow>
     of_char c \<in> {9, 10, 11, 12, 13, 28, 29, 30, 31, 32, 133, 160 :: nat}"

definition strip :: "string \<Rightarrow> string" where
  "strip s = rev (dropWhile isspace (rev (dropWhile isspace s)))"

text \<open>
  \<open>s.split(sep)\<close> for a one-character separator: the pieces between the separators,
  empty pieces kept, always at least one piece. \<open>piece\<close> is the piece being read,
  reversed.
\<close>

fun split_from :: "char \<Rightarrow> string \<Rightarrow> string \<Rightarrow> string list" where
  "split_from sep piece [] = [rev piece]"
| "split_from sep piece (c # cs) =
     (if c = sep then rev piece # split_from sep [] cs
      else split_from sep (c # piece) cs)"

definition py_split :: "char \<Rightarrow> string \<Rightarrow> string list" where
  "py_split sep s = split_from sep [] s"

text \<open>
  \<open>str.isdigit\<close>: non-empty and every character a digit. Below 256 the digits are
  \<open>0\<close> to \<open>9\<close> and the superscripts two, three and one (178, 179, 185).
\<close>

definition digit_char :: "char \<Rightarrow> bool" where
  "digit_char c \<longleftrightarrow>
     (48 \<le> (of_char c :: nat) \<and> (of_char c :: nat) \<le> 57)
     \<or> of_char c \<in> {178, 179, 185 :: nat}"

definition isdigit :: "string \<Rightarrow> bool" where
  "isdigit s \<longleftrightarrow> s \<noteq> [] \<and> list_all digit_char s"

text \<open>
  \<open>int(s)\<close> in base 10: whitespace around the literal is dropped (for \<open>int\<close> the
  separators 28 to 31 are not whitespace), one sign is allowed, then decimal digits
  with single underscores between digits. Anything else is a \<open>ValueError\<close>.
  The interpreter's limit on the number of digits of a literal is not modelled.
\<close>

definition int_space :: "char \<Rightarrow> bool" where
  "int_space c \<longleftrightarrow> of_char c \<in> {9, 10, 11, 12, 13, 32, 133, 160 :: nat}"

definition dec_char :: "char \<Rightarrow> bool" where
  "dec_char c \<longleftrightarrow> 48 \<le> (of_char c :: nat) \<and> (of_char c :: nat) \<le> 57"

fun dec_value :: "bool \<Rightarrow> nat \<Rightarrow> string \<Rightarrow> nat option" where
  "dec_value after_digit acc [] = (if after_digit then Some acc else None)"
| "dec_value after_digit acc (c # cs) =
     (if dec_char c then dec_value True (10 * acc + (of_char c - 48)) cs
      else if c = CHR ''_'' \<and> after_digit then dec_value False acc cs
      else None)"

definition py_int :: "string \<Rightarrow> error + int" where
  "py_int s =
     (case rev (dropWhile int_space (rev (dropWhile int_space s))) of
        [] \<Rightarrow> Inl ValueError
      | c # cs \<Rightarrow>
          if c = CHR ''-'' then
            (case dec_value False 0 cs of
               None \<Rightarrow> Inl ValueError | Some n \<Rightarrow> Inr (- int n))
          else if c = CHR ''+'' then
            (case dec_value False 0 cs of
               None \<Rightarrow> Inl ValueError | Some n \<Rightarrow> Inr (int n))
          else
            (case dec_value False 0 (c # cs) of
               None \<Rightarrow> Inl ValueError | Some n \<Rightarrow> Inr (int n)))"

section \<open>The bracket pattern\<close>

text \<open>
  \<open>index_pattern = re.compile(r'\[(.*?)\]')\<close> and \<open>index_pattern.search(current)\<close>:
  the leftmost \<open>[\<close> that is followed, before any newline, by a \<open>]\<close>; the group is the
  text up to the first such \<open>]\<close>. \<open>bracket_body\<close> reads the group after a \<open>[\<close>;
  \<open>index_search\<close> returns \<open>current[:match.start()]\<close> and \<open>match.group(1)\<close>.
\<close>

fun bracket_body :: "string \<Rightarrow> string option" where
  "bracket_body [] = None"
| "bracket_body (c # cs) =
     (if c = CHR '']'' then Some []
      else if c = CHR 0x0A then None
      else map_option ((#) c) (bracket_body cs))"

fun index_search :: "string \<Rightarrow> (string \<times> string) option" where
  "index_search [] = None"
| "index_search (c # cs) =
     (case (if c = CHR ''['' then bracket_body cs else None) of
        Some index_expr \<Rightarrow> Some ([], index_expr)
      | None \<Rightarrow> map_option (\<lambda>(lead, index_expr). (c # lead, index_expr)) (index_search cs))"

section \<open>Subscripts, lengths and slices of values\<close>

definition is_dict :: "pyval \<Rightarrow> bool" where
  "is_dict obj = (case obj of PDict d \<Rightarrow> True | _ \<Rightarrow> False)"

definition is_list :: "pyval \<Rightarrow> bool" where
  "is_list obj = (case obj of PList xs \<Rightarrow> True | _ \<Rightarrow> False)"

text \<open>\<open>key in obj\<close> and \<open>obj[key]\<close> for a \<open>dict\<close> and a \<open>str\<close> key.\<close>

definition has_key :: "pyval \<Rightarrow> string \<Rightarrow> bool" where
  "has_key obj key = (case obj of PDict d \<Rightarrow> map_of d key \<noteq> None | _ \<Rightarrow> False)"

definition dict_get :: "pyval \<Rightarrow> string \<Rightarrow> pyval" where
  "dict_get obj key =
     (case obj of PDict d \<Rightarrow> (case map_of d key of Some v \<Rightarrow> v | None \<Rightarrow> PNone)
      | _ \<Rightarrow> PNone)"

text \<open>
  \<open>xs[idx]\<close> on a sequence of length \<open>n\<close>: a negative index counts from the end,
  an index outside \<open>-n \<le> idx < n\<close> is an \<open>IndexError\<close>.
\<close>

definition seq_index :: "nat \<Rightarrow> int \<Rightarrow> error + nat" where
  "seq_index n idx =
     (if 0 \<le> idx \<and> idx < int n then Inr (nat idx)
      else if idx < 0 \<and> - int n \<le> idx then Inr (nat (idx + int n))
      else Inl IndexError)"

text \<open>
  \<open>obj[idx]\<close> for an \<open>int\<close> index: a \<open>list\<close> gives its element, a \<open>str\<close> its
  one-character string, a \<open>dict\<close> with \<open>str\<close> keys has no such key (\<open>KeyError\<close>),
  every other value is not subscriptable (\<open>TypeError\<close>).
\<close>

definition py_getitem :: "pyval \<Rightarrow> int \<Rightarrow> error + pyval" where
  "py_getitem obj idx =
     (case obj of
        PList xs \<Rightarrow>
          (case seq_index (length xs) idx of Inl e \<Rightarrow> Inl e | Inr i \<Rightarrow> Inr (xs ! i))
      | PStr s \<Rightarrow>
          (case seq_index (length s) idx of Inl e \<Rightarrow> Inl e | Inr i \<Rightarrow> Inr (PStr [s ! i]))
      | PDict d \<Rightarrow> Inl KeyError
      | _ \<Rightarrow> Inl TypeError)"

definition py_len :: "pyval \<Rightarrow> error + int" where
  "py_len obj =
     (case obj of
        PList xs \<Rightarrow> Inr (int (length xs))
      | PStr s \<Rightarrow> Inr (int (length s))
      | PDict d \<Rightarrow> Inr (int (length (remdups (map fst d))))
      | _ \<Rightarrow> Inl TypeError)"

text \<open>
  The positions \<open>range(*slice(start, stop, step).indices(n))\<close> selects from a sequence
  of length \<open>n\<close>, for \<open>step \<noteq> 0\<close>: a negative bound counts from the end, a bound
  outside the sequence is clamped, and the positions run from the adjusted start towards
  the adjusted stop in steps of \<open>step\<close>.
\<close>

definition slice_adjust :: "int \<Rightarrow> int \<Rightarrow> int \<Rightarrow> int" where
  "slice_adjust len step i =
     (if i < 0 then (if i + len < 0 then (if step < 0 then - 1 else 0) else i + len)
      else if i \<ge> len then (if step < 0 then len - 1 else len)
      else i)"

definition slice_positions :: "nat \<Rightarrow> int \<Rightarrow> int \<Rightarrow> int \<Rightarrow> nat list" where
  "slice_positions n start stop step =
     (let first = slice_adjust (int n) step start;
          bound = slice_adjust (int n) step stop;
          cnt = (if step < 0
                 then (if bound < first then (first - bound - 1) div (- step) + 1 else 0)
                 else (if first < bound then (bound - first - 1) div step + 1 else 0))
      in map (\<lambda>k. nat (first + int k * step)) [0..<nat cnt])"

text \<open>
  The items of \<open>for item in obj[start:stop:step]\<close>: a \<open>list\<close> slice gives its elements,
  a \<open>str\<close> slice its characters as one-character strings, step \<open>0\<close> is a
  \<open>ValueError\<close>, and every other value is a \<open>TypeError\<close> (a \<open>dict\<close> because a slice
  is not hashable, as in the interpreters before 3.12).
\<close>

definition py_getslice :: "pyval \<Rightarrow> int \<Rightarrow> int \<Rightarrow> int \<Rightarrow> error + pyval list" where
  "py_getslice obj start stop step =
     (case obj of
        PList xs \<Rightarrow>
          if step = 0 then Inl ValueError
          else Inr (map (\<lambda>i. xs ! i) (slice_positions (length xs) start stop step))
      | PStr s \<Rightarrow>
          if step = 0 then Inl ValueError
          else Inr (map (\<lambda>i. PStr [s ! i]) (slice_positions (length s) start stop step))
      | _ \<Rightarrow> Inl TypeError)"

section \<open>\<open>resolve_path\<close>\<close>

text \<open>
  Lines 35 to 39: the field in front of a bracket. A \<open>dict\<close> holding the field is
  entered; a \<open>list\<close> with an all-digit field is subscripted, outside any \<open>try\<close>;
  anything else leaves \<open>obj\<close> as it is.
\<close>

definition field_descent :: "pyval \<Rightarrow> string \<Rightarrow> error + pyval" where
  "field_descent obj field =
     (if field \<noteq> [] then
        (if is_dict obj \<and> has_key obj field then Inr (dict_get obj field)
         else if is_list obj \<and> isdigit field then
           (case py_int field of Inl e \<Rightarrow> Inl e | Inr idx \<Rightarrow> py_getitem obj idx)
         else Inr obj)
      else Inr obj)"

text \<open>
  Lines 59 to 61: the three bounds of a slice, read in this order from the pieces of the
  index expression.
\<close>

definition slice_bounds :: "pyval \<Rightarrow> string list \<Rightarrow> error + (int \<times> int \<times> int)" where
  "slice_bounds obj indices =
     (case (if indices ! 0 \<noteq> [] then py_int (indices ! 0) else Inr 0) of
        Inl e \<Rightarrow> Inl e
      | Inr start \<Rightarrow>
          (case (if length indices > 1 \<and> indices ! 1 \<noteq> [] then py_int (indices ! 1)
                 else py_len obj) of
             Inl e \<Rightarrow> Inl e
           | Inr stop \<Rightarrow>
               (case (if length indices > 2 \<and> indices ! 2 \<noteq> [] then py_int (indices ! 2)
                      else Inr 1) of
                  Inl e \<Rightarrow> Inl e
                | Inr step \<Rightarrow> Inr (start, stop, step))))"

text \<open>\<open>try: ... except (...): return None\<close>.\<close>

definition except :: "error list \<Rightarrow> error + pyval \<Rightarrow> error + pyval" where
  "except caught r =
     (case r of Inl e \<Rightarrow> (if e \<in> set caught then Inr PNone else Inl e) | Inr v \<Rightarrow> Inr v)"

text \<open>
  The weight of a segment queue falls at every recursive call: a consumed segment
  takes at least one off, and re-splitting a segment with \<open>k > 0\<close> dots replaces
  \<open>1 + 2 * k\<close> by \<open>k + 1\<close>.
\<close>

definition weight :: "string list \<Rightarrow> nat" where
  "weight parts = sum_list (map (\<lambda>p. 1 + 2 * count_list p CHR ''.'') parts)"

lemma weight_split_from:
  "sep \<notin> set piece \<Longrightarrow>
     sum_list (map (\<lambda>p. 1 + 2 * count_list p sep) (split_from sep piece cs))
       = 1 + count_list cs sep"
proof (induction cs arbitrary: piece)
  case Nil
  then show ?case by (simp add: count_list_0_iff)
next
  case (Cons c cs)
  then show ?case by (simp add: count_list_0_iff)
qed

lemma weight_py_split:
  "weight (py_split CHR ''.'' current) = 1 + count_list current CHR ''.''"
  using weight_split_from [of "CHR ''.''" "[]" current]
  by (simp add: weight_def py_split_def)

lemma count_list_pos: "c \<in> set xs \<Longrightarrow> 0 < count_list xs c"
  using count_list_0_iff [of xs c] by auto

lemma weight_append: "weight (xs @ ys) = weight xs + weight ys"
  by (simp add: weight_def)

lemma weight_Cons: "weight (p # ps) = 1 + 2 * count_list p CHR ''.'' + weight ps"
  by (simp add: weight_def)

text \<open>
  \<open>resolve_path(obj, parts)\<close>, lines 18 to 98, with the two \<open>for\<close> loops of lines 47
  to 54 and 63 to 70 as \<open>resolve_each\<close>: \<open>results\<close> is the list built so far, and a
  result that is a \<open>list\<close> is spliced in (\<open>extend\<close>), any other appended. An
  exception leaves through every frame up to a \<open>try\<close> that names it; the recursive
  calls of lines 65, 77 and 89 are inside their \<open>try\<close>.
\<close>

function resolve_path :: "pyval \<Rightarrow> string list \<Rightarrow> error + pyval"
  and resolve_each :: "pyval list \<Rightarrow> pyval list \<Rightarrow> string list \<Rightarrow> error + pyval"
where
  "resolve_path obj [] = Inr obj"
| "resolve_path obj (current # remaining) =
     (if obj = PNone then Inr obj
      else
        (case index_search current of
           Some (lead, index_expr) \<Rightarrow>
             (case field_descent obj (strip lead) of
                Inl e \<Rightarrow> Inl e
              | Inr obj1 \<Rightarrow>
                  if index_expr = ''*'' then
                    (if \<not> is_list obj1 then Inr PNone
                     else resolve_each [] (case obj1 of PList items \<Rightarrow> items | _ \<Rightarrow> []) remaining)
                  else if CHR '':'' \<in> set index_expr then
                    except [ValueError, TypeError]
                      (case slice_bounds obj1 (py_split CHR '':'' index_expr) of
                         Inl e \<Rightarrow> Inl e
                       | Inr (start, stop, step) \<Rightarrow>
                           (case py_getslice obj1 start stop step of
                              Inl e \<Rightarrow> Inl e
                            | Inr items \<Rightarrow> resolve_each [] items remaining))
                  else
                    except [ValueError, TypeError, IndexError]
                      (case py_int index_expr of
                         Inl e \<Rightarrow> Inl e
                       | Inr idx \<Rightarrow>
                           (case py_getitem obj1 idx of
                              Inl e \<Rightarrow> Inl e
                            | Inr item \<Rightarrow> resolve_path item remaining)))
         | None \<Rightarrow>
             if is_dict obj \<and> has_key obj current then
               resolve_path (dict_get obj current) remaining
             else if is_list obj \<and> isdigit current then
               except [ValueError, IndexError]
                 (case py_int current of
                    Inl e \<Rightarrow> Inl e
                  | Inr idx \<Rightarrow>
                      (case py_getitem obj idx of
                         Inl e \<Rightarrow> Inl e
                       | Inr item \<Rightarrow> resolve_path item remaining))
             else if CHR ''.'' \<in> set current then
               resolve_path obj (py_split CHR ''.'' current @ remaining)
             else Inr PNone))"
| "resolve_each results [] remaining = Inr (PList results)"
| "resolve_each results (item # items) remaining =
     (case resolve_path item remaining of
        Inl e \<Rightarrow> Inl e
      | Inr result \<Rightarrow>
          resolve_each
            (case result of PList ys \<Rightarrow> results @ ys | _ \<Rightarrow> results @ [result])
            items remaining)"
  by pat_completeness auto

termination
proof (relation "inv_image (less_than <*lex*> less_than)
    (\<lambda>x. case x of
       Inl (obj, parts) \<Rightarrow> (weight parts, 0)
     | Inr (results, items, remaining) \<Rightarrow> (weight remaining, Suc (length items)))")
  show "wf (inv_image (less_than <*lex*> less_than)
    (\<lambda>x. case x of
       Inl (obj, parts) \<Rightarrow> (weight parts, 0::nat)
     | Inr (results, items, remaining) \<Rightarrow> (weight remaining, Suc (length items))))"
    by (intro wf_inv_image wf_lex_prod wf_less_than)
qed (auto simp: weight_Cons weight_append weight_py_split count_list_pos)

section \<open>\<open>parse_response\<close>\<close>

text \<open>
  Lines 103 and 107: \<open>[part.strip() for part in paths.split('.') if part.strip()]\<close>.
\<close>

definition path_parts :: "string \<Rightarrow> string list" where
  "path_parts path = [strip part. part \<leftarrow> py_split CHR ''.'' path, strip part \<noteq> []]"

text \<open>
  The argument \<open>paths: Union[str, List[str]]\<close>, and the list comprehension of lines 107
  and 108, whose first exception ends the whole call.
\<close>

datatype paths = OnePath string | ManyPaths "string list"

fun resolve_all :: "pyval \<Rightarrow> string list \<Rightarrow> error + pyval list" where
  "resolve_all data [] = Inr []"
| "resolve_all data (p # ps) =
     (case resolve_path data (path_parts p) of
        Inl e \<Rightarrow> Inl e
      | Inr r \<Rightarrow>
          (case resolve_all data ps of
             Inl e \<Rightarrow> Inl e
           | Inr rs \<Rightarrow> Inr (r # rs)))"

fun parse_response :: "pyval \<Rightarrow> paths \<Rightarrow> error + pyval" where
  "parse_response data (OnePath path) = resolve_path data (path_parts path)"
| "parse_response data (ManyPaths ps) =
     (case resolve_all data ps of Inl e \<Rightarrow> Inl e | Inr rs \<Rightarrow> Inr (PList rs))"

section \<open>Facts about the string primitives\<close>

lemma strip_all_space: "\<forall>c\<in>set s. isspace c \<Longrightarrow> strip s = []"
proof -
  assume "\<forall>c\<in>set s. isspace c"
  then have drop: "dropWhile isspace s = []" by simp
  show ?thesis unfolding strip_def drop by simp
qed

lemma split_from_pieces:
  "p \<in> set (split_from sep piece cs) \<Longrightarrow> set p \<subseteq> set piece \<union> (set cs - {sep})"
proof (induction cs arbitrary: piece)
  case Nil
  then show ?case by simp
next
  case (Cons c cs)
  show ?case
  proof (cases "c = sep")
    case True
    with Cons.prems have "p = rev piece \<or> p \<in> set (split_from sep [] cs)" by simp
    then show ?thesis using Cons.IH [of "[]"] by auto
  next
    case False
    with Cons.prems have "p \<in> set (split_from sep (c # piece) cs)" by simp
    then show ?thesis using Cons.IH [of "c # piece"] False by auto
  qed
qed

lemma py_split_pieces: "p \<in> set (py_split sep s) \<Longrightarrow> set p \<subseteq> set s - {sep}"
  using split_from_pieces [of p sep "[]" s] by (simp add: py_split_def)

text \<open>The bracket pattern: what a match says about the group, and the match of a bare bracket.\<close>

lemma bracket_body_chars:
  "bracket_body cs = Some e \<Longrightarrow> CHR '']'' \<notin> set e \<and> CHR 0x0A \<notin> set e"
proof (induction cs arbitrary: e)
  case Nil
  then show ?case by simp
next
  case (Cons c cs)
  then show ?case by (auto split: if_splits)
qed

lemma bracket_body_closed:
  "CHR '']'' \<notin> set e \<Longrightarrow> CHR 0x0A \<notin> set e \<Longrightarrow> bracket_body (e @ CHR '']'' # rest) = Some e"
  by (induction e) auto

lemma index_search_chars:
  "index_search cs = Some (lead, e) \<Longrightarrow> CHR '']'' \<notin> set e \<and> CHR 0x0A \<notin> set e"
proof (induction cs arbitrary: lead)
  case Nil
  then show ?case by simp
next
  case (Cons c cs)
  then show ?case
    by (auto split: option.splits if_splits dest: bracket_body_chars)
qed

lemma index_search_bracket:
  "CHR '']'' \<notin> set e \<Longrightarrow> CHR 0x0A \<notin> set e \<Longrightarrow>
     index_search (CHR ''['' # e @ CHR '']'' # rest) = Some ([], e)"
  by (simp add: bracket_body_closed)

lemma strip_Nil: "strip [] = []"
  by (simp add: strip_def)

lemma field_descent_Nil: "field_descent obj [] = Inr obj"
  by (simp add: field_descent_def)

section \<open>The base case of resolution\<close>

text \<open>
  Claim C7. With no segment left \<open>resolve_path\<close> returns the current value as it is,
  and with the current value \<open>None\<close> it returns \<open>None\<close> whatever segments remain: a
  \<open>None\<close> met in the middle of a path, as under the key \<open>a\<close> of \<open>{"a": None}\<close> for the
  path \<open>a.b\<close>, is the result.
\<close>

theorem resolve_path_base_case:
  "resolve_path obj [] = Inr obj
   \<and> resolve_path PNone parts = Inr PNone
   \<and> resolve_path (PDict [(''a'', PNone)]) [''a'', ''b''] = Inr PNone"
proof (intro conjI)
  show "resolve_path obj [] = Inr obj" by simp
  show "resolve_path PNone parts = Inr PNone" by (cases parts) simp_all
  show "resolve_path (PDict [(''a'', PNone)]) [''a'', ''b''] = Inr PNone" by code_simp
qed

section \<open>Paths with no segment\<close>

text \<open>
  Claim C10. A path string made only of dots and whitespace (the empty string
  included) has no segment, and \<open>parse_response\<close> returns the whole of \<open>data\<close> for it.
\<close>

theorem blank_path_returns_data:
  assumes "\<forall>c\<in>set path. c = CHR ''.'' \<or> isspace c"
  shows "path_parts path = [] \<and> parse_response data (OnePath path) = Inr data"
proof -
  have "strip p = []" if "p \<in> set (py_split CHR ''.'' path)" for p
  proof -
    from that have "set p \<subseteq> set path - {CHR ''.''}" by (rule py_split_pieces)
    with assms have "\<forall>c\<in>set p. isspace c" by auto
    then show ?thesis by (rule strip_all_space)
  qed
  then have "path_parts path = []" by (simp add: path_parts_def)
  then show ?thesis by simp
qed

theorem blank_path_returns_data_witness:
  "path_parts '' . .'' = []
   \<and> parse_response (PInt 5) (OnePath '' . .'') = Inr (PInt 5)"
  using blank_path_returns_data [of "'' . .''" "PInt 5"]
  by (simp add: isspace_def)

section \<open>Exceptions that leave \<open>parse_response\<close>\<close>

text \<open>
  Claim C1 says that resolution never raises. Two paths of the code raise. Line 77
  subscripts a \<open>dict\<close> with an \<open>int\<close>, which is a \<open>KeyError\<close>, and the \<open>except\<close> of line
  78 names \<open>ValueError\<close>, \<open>TypeError\<close> and \<open>IndexError\<close> only: the path \<open>a[0]\<close> over
  \<open>{"a": {"b": 1}}\<close> raises \<open>KeyError\<close>. Line 39 subscripts a \<open>list\<close> with the field in
  front of a bracket outside any \<open>try\<close>, where line 89 does the same inside one: the
  path \<open>7[0]\<close> over \<open>[1, 2, 3]\<close> raises \<open>IndexError\<close>.
\<close>

theorem resolve_path_raises:
  "parse_response (PDict [(''a'', PDict [(''b'', PInt 1)])]) (OnePath ''a[0]'') = Inl KeyError
   \<and> parse_response (PList [PInt 1, PInt 2, PInt 3]) (OnePath ''7[0]'') = Inl IndexError"
  by code_simp

text \<open>
  Claim C6 says that a list of paths gives one result for each path, in order, and
  that a path which cannot be resolved does not touch the results of the others. The
  list comprehension of lines 107 and 108 is left by the first exception: the paths
  \<open>a[0]\<close> and \<open>c\<close> over \<open>{"a": {"b": 1}, "c": 2}\<close> raise the \<open>KeyError\<close> of the first
  path and give no list.
\<close>

theorem batch_raises:
  "parse_response (PDict [(''a'', PDict [(''b'', PInt 1)]), (''c'', PInt 2)])
     (ManyPaths [''a[0]'', ''c'']) = Inl KeyError"
  by code_simp

section \<open>A field that cannot be entered\<close>

text \<open>
  Claim C5. For a segment with a bracket and a non-empty field in front of it: when the
  current value is neither a \<open>dict\<close> holding the field nor a \<open>list\<close> with an all-digit
  field, the field descent leaves the value as it is, and the segment resolves as its
  bracket alone does against the same value, whatever that gives.
\<close>

theorem missing_field_is_noop:
  assumes "index_search current = Some (lead, index_expr)"
    and "strip lead \<noteq> []"
    and "\<not> (is_dict obj \<and> has_key obj (strip lead))"
    and "\<not> (is_list obj \<and> isdigit (strip lead))"
  shows "field_descent obj (strip lead) = Inr obj
    \<and> resolve_path obj (current # remaining)
        = resolve_path obj ((CHR ''['' # index_expr @ '']'') # remaining)"
proof -
  from assms(1) have chars: "CHR '']'' \<notin> set index_expr" "CHR 0x0A \<notin> set index_expr"
    using index_search_chars by blast+
  then have bare: "index_search (CHR ''['' # index_expr @ '']'') = Some ([], index_expr)"
    using index_search_bracket [of index_expr "[]"] by simp
  have fd: "field_descent obj (strip lead) = Inr obj"
    using assms(2,3,4) by (auto simp: field_descent_def)
  show ?thesis
  proof (cases "obj = PNone")
    case True
    then show ?thesis using fd by simp
  next
    case False
    then show ?thesis
      using fd assms(1) bare by (simp add: strip_Nil field_descent_Nil)
  qed
qed

theorem missing_field_is_noop_witness:
  "field_descent (PList [PInt 7, PInt 8]) (strip ''x'') = Inr (PList [PInt 7, PInt 8])
   \<and> resolve_path (PList [PInt 7, PInt 8]) [''x[1]''] = resolve_path (PList [PInt 7, PInt 8]) [''[1]'']
   \<and> resolve_path (PList [PInt 7, PInt 8]) [''x[1]''] = Inr (PInt 8)"
proof -
  have 1: "index_search ''x[1]'' = Some (''x'', ''1'')" by code_simp
  have 2: "strip ''x'' \<noteq> []" by code_simp
  have 3: "\<not> (is_dict (PList [PInt 7, PInt 8]) \<and> has_key (PList [PInt 7, PInt 8]) (strip ''x''))"
    by (simp add: is_dict_def)
  have 4: "\<not> (is_list (PList [PInt 7, PInt 8]) \<and> isdigit (strip ''x''))" by code_simp
  have 5: "resolve_path (PList [PInt 7, PInt 8]) [''[1]''] = Inr (PInt 8)" by code_simp
  from missing_field_is_noop [OF 1 2 3 4, of "[]"] 5 show ?thesis
    by (simp del: resolve_path.simps)
qed

end
